theory Spec2Isabelle
  imports Complex_Main
begin

section \<open>Host platform values\<close>

text \<open>
  The script \<^verbatim>\<open>script.js\<close> is a set of event handlers over the DOM of one page.
  The page is modelled as a record of exactly the DOM parts the script reads or writes;
  every handler is a function from the page to an outcome. An attribute or storage
  item is a \<^typ>\<open>string option\<close>, where \<^term>\<open>None\<close> is JavaScript's \<^verbatim>\<open>null\<close>.
\<close>

datatype js_error = TypeError | SyntaxError

text \<open>A template literal \<^verbatim>\<open>`${v}`\<close> prints \<^verbatim>\<open>null\<close> as the four letters "null".\<close>

definition template_string :: "string option \<Rightarrow> string" where
  "template_string v = (case v of None \<Rightarrow> ''null'' | Some s \<Rightarrow> s)"

text \<open>\<^verbatim>\<open>a || b\<close> on a string-or-null \<open>a\<close>: null and the empty string are falsy.\<close>

definition js_or :: "string option \<Rightarrow> string \<Rightarrow> string" where
  "js_or a b = (case a of None \<Rightarrow> b | Some s \<Rightarrow> if s = [] then b else s)"

text \<open>A \<^verbatim>\<open>classList\<close> is an ordered set of tokens.\<close>

definition classList_contains :: "string \<Rightarrow> string list \<Rightarrow> bool" where
  "classList_contains c cs = (c \<in> set cs)"

definition classList_add :: "string \<Rightarrow> string list \<Rightarrow> string list" where
  "classList_add c cs = (if c \<in> set cs then cs else cs @ [c])"

definition classList_remove :: "string \<Rightarrow> string list \<Rightarrow> string list" where
  "classList_remove c cs = filter (\<lambda>x. x \<noteq> c) cs"

text \<open>Updating one element of a node list in place; an index outside the list changes nothing.\<close>

definition map_at :: "nat \<Rightarrow> ('a \<Rightarrow> 'a) \<Rightarrow> 'a list \<Rightarrow> 'a list" where
  "map_at i f xs = (if i < length xs then xs[i := f (xs ! i)] else xs)"

section \<open>The page\<close>

record nav_link =
  href :: "string option"
  link_classList :: "string list"

text \<open>An element as far as the script looks at it: its \<^verbatim>\<open>id\<close> attribute and its \<^verbatim>\<open>offsetTop\<close>.\<close>

record element =
  id_attr :: "string option"
  offsetTop :: int

text \<open>
  An element matched by \<^verbatim>\<open>'.project-card, .skill-tag, .about-text'\<close>: its inline style,
  whether it is a project card and, for a card, whether it contains a
  \<^verbatim>\<open>.project-link\<close> and the text of its \<^verbatim>\<open>.project-title\<close> (if it has one).
\<close>

record reveal_el =
  project_card :: bool
  opacity :: string
  transform :: string
  transition :: string
  zIndex :: string
  project_link :: bool
  project_title :: "string option"

record entry =
  target :: nat
  isIntersecting :: bool

datatype event_target = Document | Window | ThemeToggle | NavLink nat | Card nat | CardLink nat

datatype effect =
    PreventDefault
  | ScrollTo int string
  | ConsoleLog string
  | AppendToHead string

text \<open>
  \<open>themeToggle\<close> is the text content of \<^verbatim>\<open>#themeToggle\<close>, \<open>navMenu\<close> the class list of
  \<^verbatim>\<open>.nav-menu\<close>; both are \<^term>\<open>None\<close> when the query at the top of the script returned
  null. \<open>querySelector\<close> is the document's own selector query, a parameter of the page:
  it raises on a string that is no selector, and returns null or the first match.
  \<open>sections\<close> is \<^verbatim>\<open>querySelectorAll('section, header')\<close> in document order,
  \<open>observed\<close> the targets of the intersection observer, \<open>effects\<close> the calls
  the handlers made to the platform, in order.
\<close>

record page =
  themeToggle :: "string option"
  navLinks :: "nav_link list"
  navMenu :: "string list option"
  body_classList :: "string list"
  localStorage :: "string \<rightharpoonup> string"
  querySelector :: "string \<Rightarrow> js_error + element option"
  sections :: "element list"
  pageYOffset :: rat
  revealElements :: "reveal_el list"
  observed :: "nat set"
  listeners :: "(event_target \<times> string) list"
  effects :: "effect list"

text \<open>A handler either runs to its end or throws; the page it leaves behind is kept in both cases.\<close>

datatype outcome = Done page | Threw js_error page

definition and_then :: "outcome \<Rightarrow> (page \<Rightarrow> outcome) \<Rightarrow> outcome" where
  "and_then r f = (case r of Done p \<Rightarrow> f p | Threw e p \<Rightarrow> Threw e p)"

fun state_of :: "outcome \<Rightarrow> page" where
  "state_of (Done p) = p"
| "state_of (Threw e p) = p"

fun threw :: "outcome \<Rightarrow> bool" where
  "threw (Done p) = False"
| "threw (Threw e p) = True"

definition perform :: "effect \<Rightarrow> page \<Rightarrow> page" where
  "perform x p = p\<lparr>effects := effects p @ [x]\<rparr>"

definition addEventListener :: "event_target \<Rightarrow> string \<Rightarrow> page \<Rightarrow> page" where
  "addEventListener t ty p = p\<lparr>listeners := listeners p @ [(t, ty)]\<rparr>"

definition listening :: "event_target \<Rightarrow> string \<Rightarrow> page \<Rightarrow> bool" where
  "listening t ty p = ((t, ty) \<in> set (listeners p))"

definition setItem :: "string \<Rightarrow> string \<Rightarrow> page \<Rightarrow> page" where
  "setItem k v p = p\<lparr>localStorage := (localStorage p)(k \<mapsto> v)\<rparr>"

section \<open>Theme toggle\<close>

text \<open>The two glyphs, byte for byte as the source file spells them.\<close>

definition sun_glyph :: string where
  "sun_glyph = [CHR 0xC3, CHR 0xA2, CHR 0xCB, CHR 0x9C, CHR 0xE2, CHR 0x82, CHR 0xAC,
                CHR 0xC3, CHR 0xAF, CHR 0xC2, CHR 0xB8]"

definition moon_glyph :: string where
  "moon_glyph = [CHR 0xC3, CHR 0xB0, CHR 0xC5, CHR 0xB8, CHR 0xC5, CHR 0x92, CHR 0xE2,
                 CHR 0x84, CHR 0xA2]"

definition applyTheme :: "string \<Rightarrow> page \<Rightarrow> outcome" where
  "applyTheme theme p =
     (if theme = ''dark'' then
        (let p1 = p\<lparr>body_classList := classList_add ''dark-mode'' (body_classList p)\<rparr> in
         case themeToggle p1 of
           None \<Rightarrow> Threw TypeError p1
         | Some _ \<Rightarrow> Done (p1\<lparr>themeToggle := Some sun_glyph\<rparr>))
      else
        (let p1 = p\<lparr>body_classList := classList_remove ''dark-mode'' (body_classList p)\<rparr> in
         case themeToggle p1 of
           None \<Rightarrow> Threw TypeError p1
         | Some _ \<Rightarrow> Done (p1\<lparr>themeToggle := Some moon_glyph\<rparr>)))"

text \<open>The click listener of the toggle button.\<close>

definition themeToggle_click :: "page \<Rightarrow> outcome" where
  "themeToggle_click p =
     (let newTheme = (if classList_contains ''dark-mode'' (body_classList p)
                      then ''light'' else ''dark'')
      in and_then (applyTheme newTheme p) (\<lambda>p1. Done (setItem ''theme'' newTheme p1)))"

definition initThemeToggle :: "page \<Rightarrow> outcome" where
  "initThemeToggle p =
     (let currentTheme = js_or (localStorage p ''theme'') ''light''
      in and_then (applyTheme currentTheme p)
           (\<lambda>p1. case themeToggle p1 of
                    None \<Rightarrow> Threw TypeError p1
                  | Some _ \<Rightarrow> Done (addEventListener ThemeToggle ''click'' p1)))"

section \<open>Smooth scroll navigation\<close>

text \<open>The click listener of the nav link at index \<open>i\<close> of \<open>navLinks\<close>.\<close>

definition navLink_click :: "nat \<Rightarrow> page \<Rightarrow> outcome" where
  "navLink_click i p =
     (let p1 = perform PreventDefault p;
          targetId = href (navLinks p1 ! i)
      in case querySelector p1 (template_string targetId) of
           Inl e \<Rightarrow> Threw e p1
         | Inr None \<Rightarrow> Done p1
         | Inr (Some targetSection) \<Rightarrow>
             (let p2 = perform (ScrollTo (offsetTop targetSection - 60) ''smooth'') p1 in
              case navMenu p2 of
                None \<Rightarrow> Threw TypeError p2
              | Some cl \<Rightarrow>
                  if classList_contains ''active'' cl
                  then Done (p2\<lparr>navMenu := Some (classList_remove ''active'' cl)\<rparr>)
                  else Done p2))"

section \<open>Scroll reveal\<close>

definition hide :: "reveal_el \<Rightarrow> reveal_el" where
  "hide el = el\<lparr>opacity := ''0'', transform := ''translateY(20px)'',
               transition := ''opacity 600ms ease-out, transform 600ms ease-out''\<rparr>"

definition reveal :: "reveal_el \<Rightarrow> reveal_el" where
  "reveal el = el\<lparr>opacity := ''1'', transform := ''translateY(0)''\<rparr>"

text \<open>The body of the observer callback for one entry, and the callback itself.\<close>

definition on_entry :: "page \<Rightarrow> entry \<Rightarrow> page" where
  "on_entry p e =
     (if isIntersecting e
      then p\<lparr>revealElements := map_at (target e) reveal (revealElements p),
             observed := observed p - {target e}\<rparr>
      else p)"

definition observer_callback :: "entry list \<Rightarrow> page \<Rightarrow> outcome" where
  "observer_callback entries p = Done (foldl on_entry p entries)"

definition initScrollReveal :: "page \<Rightarrow> outcome" where
  "initScrollReveal p =
     Done (p\<lparr>revealElements := map hide (revealElements p),
             observed := set [0..<length (revealElements p)]\<rparr>)"

section \<open>Active navigation link tracking\<close>

text \<open>The first \<open>forEach\<close> of the scroll listener: \<open>currentSection\<close> after the scan.\<close>

definition currentSection :: "page \<Rightarrow> string option" where
  "currentSection p =
     foldl (\<lambda>cur section.
              if of_int (offsetTop section - 100) \<le> pageYOffset p
              then id_attr section else cur)
       (Some []) (sections p)"

definition update_link :: "string option \<Rightarrow> nav_link \<Rightarrow> nav_link" where
  "update_link cur link =
     (let l1 = link\<lparr>link_classList := classList_remove ''active'' (link_classList link)\<rparr>
      in if href l1 = Some (''#'' @ template_string cur)
         then l1\<lparr>link_classList := classList_add ''active'' (link_classList l1)\<rparr>
         else l1)"

definition scroll_handler :: "page \<Rightarrow> outcome" where
  "scroll_handler p =
     Done (p\<lparr>navLinks := map (update_link (currentSection p)) (navLinks p)\<rparr>)"

definition initActiveNavTracking :: "page \<Rightarrow> outcome" where
  "initActiveNavTracking p = Done (addEventListener Window ''scroll'' p)"

section \<open>Injected styles\<close>

definition active_nav_css :: string where
  "active_nav_css =
     [CHR 0x0A] @ ''    .nav-link.active {'' @ [CHR 0x0A] @
     ''      color: var(--color-primary);'' @ [CHR 0x0A] @
     ''    }'' @ [CHR 0x0A] @
     ''    '' @ [CHR 0x0A] @
     ''    .nav-link.active::after {'' @ [CHR 0x0A] @
     ''      width: 100%;'' @ [CHR 0x0A] @
     ''    }'' @ [CHR 0x0A] @ ''  ''"

definition addActiveNavStyles :: "page \<Rightarrow> outcome" where
  "addActiveNavStyles p = Done (perform (AppendToHead active_nav_css) p)"

section \<open>Project cards\<close>

definition card_mouseenter :: "nat \<Rightarrow> page \<Rightarrow> outcome" where
  "card_mouseenter i p =
     Done (p\<lparr>revealElements := map_at i (\<lambda>el. el\<lparr>zIndex := ''1''\<rparr>) (revealElements p)\<rparr>)"

definition card_mouseleave :: "nat \<Rightarrow> page \<Rightarrow> outcome" where
  "card_mouseleave i p =
     Done (p\<lparr>revealElements := map_at i (\<lambda>el. el\<lparr>zIndex := ''0''\<rparr>) (revealElements p)\<rparr>)"

text \<open>The click listener of the \<^verbatim>\<open>.project-link\<close> inside card \<open>i\<close>.\<close>

definition projectLink_click :: "nat \<Rightarrow> page \<Rightarrow> outcome" where
  "projectLink_click i p =
     (case project_title (revealElements p ! i) of
        None \<Rightarrow> Threw TypeError p
      | Some title \<Rightarrow> Done (perform (ConsoleLog (''Navigating to project: '' @ title)) p))"

definition init_card :: "page \<Rightarrow> nat \<Rightarrow> page" where
  "init_card p i =
     (let card = revealElements p ! i;
          p1 = addEventListener (Card i) ''mouseenter'' p;
          p2 = addEventListener (Card i) ''mouseleave'' p1
      in if project_link card then addEventListener (CardLink i) ''click'' p2 else p2)"

definition projectCards :: "page \<Rightarrow> nat list" where
  "projectCards p =
     filter (\<lambda>i. project_card (revealElements p ! i)) [0..<length (revealElements p)]"

definition initProjectCardInteractions :: "page \<Rightarrow> outcome" where
  "initProjectCardInteractions p = Done (foldl init_card p (projectCards p))"

section \<open>Initialization\<close>

text \<open>The top level of the script: the nav-link listeners and the load listener.\<close>

definition script_load :: "page \<Rightarrow> outcome" where
  "script_load p =
     Done (addEventListener Document ''DOMContentLoaded''
             (foldl (\<lambda>q i. addEventListener (NavLink i) ''click'' q) p
                [0..<length (navLinks p)]))"

definition domContentLoaded :: "page \<Rightarrow> outcome" where
  "domContentLoaded p =
     and_then (and_then (and_then (and_then
       (initThemeToggle (perform (ConsoleLog ''Portfolio loaded and initialized'') p))
       initScrollReveal) initActiveNavTracking) addActiveNavStyles)
       initProjectCardInteractions"

section \<open>Events\<close>

text \<open>
  What the platform can deliver. A listener runs only where the script registered it;
  a scroll first moves the viewport; the observer reports only targets it observes.
  An uncaught error ends the handler and leaves the page as it is at that point.
\<close>

datatype event =
    Loaded
  | ToggleClicked
  | NavLinkClicked nat
  | Scrolled rat
  | Intersected "entry list"
  | CardEntered nat
  | CardLeft nat
  | ProjectLinkClicked nat

fun fire :: "event \<Rightarrow> page \<Rightarrow> outcome" where
  "fire Loaded p =
     (if listening Document ''DOMContentLoaded'' p then domContentLoaded p else Done p)"
| "fire ToggleClicked p =
     (if listening ThemeToggle ''click'' p then themeToggle_click p else Done p)"
| "fire (NavLinkClicked i) p =
     (if listening (NavLink i) ''click'' p then navLink_click i p else Done p)"
| "fire (Scrolled y) p =
     (let p1 = p\<lparr>pageYOffset := y\<rparr>
      in if listening Window ''scroll'' p1 then scroll_handler p1 else Done p1)"
| "fire (Intersected entries) p =
     observer_callback (filter (\<lambda>e. target e \<in> observed p) entries) p"
| "fire (CardEntered i) p =
     (if listening (Card i) ''mouseenter'' p then card_mouseenter i p else Done p)"
| "fire (CardLeft i) p =
     (if listening (Card i) ''mouseleave'' p then card_mouseleave i p else Done p)"
| "fire (ProjectLinkClicked i) p =
     (if listening (CardLink i) ''click'' p then projectLink_click i p else Done p)"

fun run :: "event list \<Rightarrow> page \<Rightarrow> page" where
  "run [] p = p"
| "run (e # es) p = run es (state_of (fire e p))"

section \<open>Derived notions used in the properties\<close>

text \<open>The persisted preference, when there is one, is one of the two theme names.\<close>

definition recognized_theme :: "page \<Rightarrow> bool" where
  "recognized_theme p =
     (case localStorage p ''theme'' of None \<Rightarrow> True | Some v \<Rightarrow> v = ''light'' \<or> v = ''dark'')"

text \<open>
  The section the specification names: the last element, in document order, whose top
  less 100 pixels is at or above the scroll offset. It is defined from those words, to be
  compared with the scan of the scroll listener.
\<close>

definition qualifies :: "page \<Rightarrow> element \<Rightarrow> bool" where
  "qualifies p s = (of_int (offsetTop s - 100) \<le> pageYOffset p)"

definition last_qualifying :: "page \<Rightarrow> element option" where
  "last_qualifying p =
     (case filter (qualifies p) (sections p) of [] \<Rightarrow> None | q # qs \<Rightarrow> Some (last (q # qs)))"

definition is_active :: "nav_link \<Rightarrow> bool" where
  "is_active link = classList_contains ''active'' (link_classList link)"

text \<open>The two states of a reveal element, as the inline style spells them.\<close>

definition is_visible :: "reveal_el \<Rightarrow> bool" where
  "is_visible el = (opacity el = ''1'' \<and> transform el = ''translateY(0)'')"

definition is_hidden :: "reveal_el \<Rightarrow> bool" where
  "is_hidden el = (opacity el = ''0'' \<and> transform el = ''translateY(20px)'')"

definition visible_at :: "nat \<Rightarrow> page \<Rightarrow> bool" where
  "visible_at i p = (i < length (revealElements p) \<and> is_visible (revealElements p ! i))"

definition hidden_at :: "nat \<Rightarrow> page \<Rightarrow> bool" where
  "hidden_at i p = (i < length (revealElements p) \<and> is_hidden (revealElements p ! i))"

text \<open>
  The pages a sequence of intersection notifications goes through, each notification
  being one call of the observer callback, and the number of steps of that sequence
  in which element \<open>i\<close> goes from hidden to visible.
\<close>

fun trace :: "entry list list \<Rightarrow> page \<Rightarrow> page list" where
  "trace [] p = [p]"
| "trace (n # ns) p = p # trace ns (state_of (observer_callback n p))"

definition reveals :: "nat \<Rightarrow> page list \<Rightarrow> nat" where
  "reveals i tr = length (filter (\<lambda>(a, b). hidden_at i a \<and> visible_at i b) (zip tr (tl tr)))"

section \<open>A concrete page\<close>

text \<open>
  A first visit: nothing persisted, three nav links of which the last points at no
  element, three sections, one skill tag and one project card with link and title.
\<close>

definition example_page :: page where
  "example_page =
     \<lparr>themeToggle = Some moon_glyph,
      navLinks = [\<lparr>href = Some ''#about'', link_classList = [''nav-link'']\<rparr>,
                  \<lparr>href = Some ''#projects'', link_classList = [''nav-link'', ''active'']\<rparr>,
                  \<lparr>href = Some ''#contact'', link_classList = [''nav-link'']\<rparr>],
      navMenu = Some [''nav-menu'', ''active''],
      body_classList = [],
      localStorage = Map.empty,
      querySelector =
        (\<lambda>s. if s = ''#about'' then Inr (Some \<lparr>id_attr = Some ''about'', offsetTop = 600\<rparr>)
             else if s = ''#projects'' then Inr (Some \<lparr>id_attr = Some ''projects'', offsetTop = 1400\<rparr>)
             else Inr None),
      sections = [\<lparr>id_attr = Some ''home'', offsetTop = 0\<rparr>,
                  \<lparr>id_attr = Some ''about'', offsetTop = 600\<rparr>,
                  \<lparr>id_attr = Some ''projects'', offsetTop = 1400\<rparr>],
      pageYOffset = 0,
      revealElements =
        [\<lparr>project_card = False, opacity = [], transform = [], transition = [],
           zIndex = [], project_link = False, project_title = None\<rparr>,
         \<lparr>project_card = True, opacity = [], transform = [], transition = [],
           zIndex = [], project_link = True, project_title = Some ''Portfolio''\<rparr>],
      observed = {},
      listeners = [],
      effects = []\<rparr>"

text \<open>Variations of it: two links to one section, a section with no id, missing parts.\<close>

definition duplicate_links_page :: page where
  "duplicate_links_page =
     example_page\<lparr>navLinks := [\<lparr>href = Some ''#home'', link_classList = [''nav-link'', ''logo'']\<rparr>,
                               \<lparr>href = Some ''#home'', link_classList = [''nav-link'']\<rparr>]\<rparr>"

definition anonymous_section_page :: page where
  "anonymous_section_page =
     example_page\<lparr>sections := [\<lparr>id_attr = Some ''home'', offsetTop = 0\<rparr>,
                               \<lparr>id_attr = None, offsetTop = 600\<rparr>,
                               \<lparr>id_attr = Some ''projects'', offsetTop = 1400\<rparr>],
                  pageYOffset := 700\<rparr>"

definition no_nav_links_page :: page where
  "no_nav_links_page = example_page\<lparr>navLinks := []\<rparr>"

definition no_nav_menu_page :: page where
  "no_nav_menu_page = example_page\<lparr>navMenu := None\<rparr>"

definition no_toggle_page :: page where
  "no_toggle_page = example_page\<lparr>themeToggle := None\<rparr>"

definition untitled_card_page :: page where
  "untitled_card_page =
     example_page\<lparr>revealElements :=
       [\<lparr>project_card = True, opacity = [], transform = [], transition = [],
          zIndex = [], project_link = True, project_title = None\<rparr>]\<rparr>"

text \<open>The example page once the script has loaded and the load handler has run.\<close>

definition loaded_page :: page where
  "loaded_page = state_of (fire Loaded (state_of (script_load example_page)))"

text \<open>A nav link whose href is a bare "#", which the selector query rejects.\<close>

definition bare_hash_page :: page where
  "bare_hash_page =
     example_page\<lparr>navLinks := [\<lparr>href = Some ''#'', link_classList = [''nav-link'']\<rparr>],
                  querySelector := (\<lambda>s. if s = ''#'' then Inl SyntaxError else Inr None)\<rparr>"

definition card_enters :: entry where
  "card_enters = \<lparr>target = 1, isIntersecting = True\<rparr>"

definition card_leaves :: entry where
  "card_leaves = \<lparr>target = 1, isIntersecting = False\<rparr>"

section \<open>Class lists\<close>

lemma contains_add [simp]: "classList_contains c (classList_add c cs)"
  by (simp add: classList_contains_def classList_add_def)

lemma contains_remove [simp]: "\<not> classList_contains c (classList_remove c cs)"
  by (simp add: classList_contains_def classList_remove_def)

lemma remove_add:
  "\<not> classList_contains c cs \<Longrightarrow> classList_remove c (classList_add c cs) = cs"
  by (auto simp add: classList_contains_def classList_remove_def classList_add_def filter_id_conv)

section \<open>Theme: what the handlers compute\<close>

lemma applyTheme_present:
  "themeToggle p = Some g \<Longrightarrow>
   applyTheme theme p =
     Done (p\<lparr>body_classList :=
               (if theme = ''dark'' then classList_add ''dark-mode'' (body_classList p)
                else classList_remove ''dark-mode'' (body_classList p)),
             themeToggle := Some (if theme = ''dark'' then sun_glyph else moon_glyph)\<rparr>)"
  by (simp add: applyTheme_def Let_def)

lemma applyTheme_absent:
  "themeToggle p = None \<Longrightarrow>
   applyTheme theme p =
     Threw TypeError
       (p\<lparr>body_classList :=
            (if theme = ''dark'' then classList_add ''dark-mode'' (body_classList p)
             else classList_remove ''dark-mode'' (body_classList p))\<rparr>)"
  by (simp add: applyTheme_def Let_def)

lemma initThemeToggle_present:
  "themeToggle p = Some g \<Longrightarrow>
   initThemeToggle p =
     Done (p\<lparr>body_classList :=
               (if js_or (localStorage p ''theme'') ''light'' = ''dark''
                then classList_add ''dark-mode'' (body_classList p)
                else classList_remove ''dark-mode'' (body_classList p)),
             themeToggle :=
               Some (if js_or (localStorage p ''theme'') ''light'' = ''dark''
                     then sun_glyph else moon_glyph),
             listeners := listeners p @ [(ThemeToggle, ''click'')]\<rparr>)"
  by (simp add: initThemeToggle_def applyTheme_present and_then_def addEventListener_def Let_def)

lemma foldl_init_card_fields:
  "themeToggle (foldl init_card p js) = themeToggle p \<and>
   body_classList (foldl init_card p js) = body_classList p \<and>
   localStorage (foldl init_card p js) = localStorage p \<and>
   navLinks (foldl init_card p js) = navLinks p \<and>
   navMenu (foldl init_card p js) = navMenu p \<and>
   revealElements (foldl init_card p js) = revealElements p \<and>
   observed (foldl init_card p js) = observed p \<and>
   effects (foldl init_card p js) = effects p"
  by (induction js arbitrary: p) (simp_all add: init_card_def addEventListener_def Let_def)

lemma domContentLoaded_present:
  "themeToggle p = Some g \<Longrightarrow>
   \<exists>p'. domContentLoaded p = Done p' \<and>
     body_classList p' = body_classList (state_of (initThemeToggle p)) \<and>
     themeToggle p' = themeToggle (state_of (initThemeToggle p)) \<and>
     localStorage p' = localStorage p"
  by (simp add: domContentLoaded_def initThemeToggle_present perform_def and_then_def
      initScrollReveal_def initActiveNavTracking_def addActiveNavStyles_def
      initProjectCardInteractions_def addEventListener_def foldl_init_card_fields)

text \<open>
  Claim C5. With no persisted theme at startup and the toggle button present,
  \<open>initThemeToggle\<close>, and the whole load handler with it, finishes with the dark-mode
  class absent from the body, the moon glyph on the button and the storage as it was.
\<close>

theorem C5_absent_preference_applies_light:
  assumes "localStorage p ''theme'' = None" and "themeToggle p \<noteq> None"
  shows "(\<exists>p'. initThemeToggle p = Done p' \<and>
            \<not> classList_contains ''dark-mode'' (body_classList p') \<and>
            themeToggle p' = Some moon_glyph \<and>
            localStorage p' = localStorage p) \<and>
         (\<exists>p'. domContentLoaded p = Done p' \<and>
            \<not> classList_contains ''dark-mode'' (body_classList p') \<and>
            themeToggle p' = Some moon_glyph \<and>
            localStorage p' = localStorage p)"
proof -
  from assms(2) obtain g where g: "themeToggle p = Some g" by auto
  have light: "js_or (localStorage p ''theme'') ''light'' \<noteq> ''dark''"
    using assms(1) by (simp add: js_or_def)
  have first: "\<exists>p'. initThemeToggle p = Done p' \<and>
            \<not> classList_contains ''dark-mode'' (body_classList p') \<and>
            themeToggle p' = Some moon_glyph \<and>
            localStorage p' = localStorage p"
    using light by (simp add: initThemeToggle_present [OF g])
  moreover have "\<exists>p'. domContentLoaded p = Done p' \<and>
            \<not> classList_contains ''dark-mode'' (body_classList p') \<and>
            themeToggle p' = Some moon_glyph \<and>
            localStorage p' = localStorage p"
    using domContentLoaded_present [OF g] first by auto
  ultimately show ?thesis by blast
qed

theorem C5_witness:
  "localStorage example_page ''theme'' = None \<and> themeToggle example_page \<noteq> None \<and>
   (\<exists>p'. initThemeToggle example_page = Done p' \<and>
            \<not> classList_contains ''dark-mode'' (body_classList p') \<and>
            themeToggle p' = Some moon_glyph \<and>
            localStorage p' = localStorage example_page)"
proof -
  have a: "localStorage example_page ''theme'' = None" by (simp add: example_page_def)
  have b: "themeToggle example_page \<noteq> None" by (simp add: example_page_def)
  show ?thesis using a b C5_absent_preference_applies_light [OF a b] by blast
qed

text \<open>
  Claim C9. Whatever is stored under the theme key, as long as it is not the string
  "dark" (nothing, "light", the empty string or any other string), \<open>initThemeToggle\<close>
  applies the light theme and leaves the storage as it found it: the page it produces is
  the one it produces from the same page with the key absent, with the storage put back.
\<close>

theorem C9_unrecognized_preference_applies_light:
  assumes "localStorage p ''theme'' \<noteq> Some ''dark''" and "themeToggle p \<noteq> None"
  shows "\<exists>p'. initThemeToggle p = Done p' \<and>
            \<not> classList_contains ''dark-mode'' (body_classList p') \<and>
            themeToggle p' = Some moon_glyph \<and>
            localStorage p' = localStorage p \<and>
            p' = (state_of (initThemeToggle (p\<lparr>localStorage := (localStorage p)(''theme'' := None)\<rparr>)))
                   \<lparr>localStorage := localStorage p\<rparr>"
proof -
  from assms(2) obtain g where g: "themeToggle p = Some g" by auto
  have light: "js_or (localStorage p ''theme'') ''light'' \<noteq> ''dark''"
    using assms(1) by (auto simp add: js_or_def split: option.splits)
  have g': "themeToggle (p\<lparr>localStorage := (localStorage p)(''theme'' := None)\<rparr>) = Some g"
    using g by simp
  show ?thesis
    using light
    by (simp add: initThemeToggle_present [OF g] initThemeToggle_present [OF g'] js_or_def)
qed

theorem C9_witness:
  "localStorage (example_page\<lparr>localStorage := [''theme'' \<mapsto> ''sepia'']\<rparr>) ''theme'' \<noteq> Some ''dark'' \<and>
   themeToggle (example_page\<lparr>localStorage := [''theme'' \<mapsto> ''sepia'']\<rparr>) \<noteq> None \<and>
   (\<exists>p'. initThemeToggle (example_page\<lparr>localStorage := [''theme'' \<mapsto> ''sepia'']\<rparr>) = Done p' \<and>
      \<not> classList_contains ''dark-mode'' (body_classList p') \<and>
      themeToggle p' = Some moon_glyph \<and>
      localStorage p' ''theme'' = Some ''sepia'')"
proof -
  let ?p = "example_page\<lparr>localStorage := [''theme'' \<mapsto> ''sepia'']\<rparr>"
  have a: "localStorage ?p ''theme'' \<noteq> Some ''dark''" by simp
  have b: "themeToggle ?p \<noteq> None" by (simp add: example_page_def)
  have c: "localStorage ?p ''theme'' = Some ''sepia''" by simp
  show ?thesis
    using a b c C9_unrecognized_preference_applies_light [OF a b] by auto
qed

text \<open>
  Claim C6. A click on the toggle button (which exists, the listener being attached to
  it) computes the theme opposite to the body class, applies it to the body class and
  the glyph, and stores exactly that theme name, so that afterwards "dark" is stored
  exactly when the body has the dark-mode class, and "light" exactly when it has not.
\<close>

theorem C6_toggle_click_persists_opposite:
  assumes "themeToggle p \<noteq> None"
  shows "\<exists>p'. themeToggle_click p = Done p' \<and>
           (classList_contains ''dark-mode'' (body_classList p')
              \<longleftrightarrow> \<not> classList_contains ''dark-mode'' (body_classList p)) \<and>
           themeToggle p' =
             Some (if classList_contains ''dark-mode'' (body_classList p)
                   then moon_glyph else sun_glyph) \<and>
           localStorage p' =
             (localStorage p)(''theme'' \<mapsto>
                (if classList_contains ''dark-mode'' (body_classList p)
                 then ''light'' else ''dark'')) \<and>
           (localStorage p' ''theme'' = Some ''dark''
              \<longleftrightarrow> classList_contains ''dark-mode'' (body_classList p')) \<and>
           (localStorage p' ''theme'' = Some ''light''
              \<longleftrightarrow> \<not> classList_contains ''dark-mode'' (body_classList p'))"
proof -
  from assms obtain g where g: "themeToggle p = Some g" by auto
  show ?thesis
    by (simp add: themeToggle_click_def applyTheme_present [OF g] and_then_def setItem_def Let_def)
qed

theorem C6_witness:
  "themeToggle example_page \<noteq> None \<and>
   \<not> classList_contains ''dark-mode'' (body_classList example_page) \<and>
   (\<exists>p'. themeToggle_click example_page = Done p' \<and>
      classList_contains ''dark-mode'' (body_classList p') \<and>
      themeToggle p' = Some sun_glyph \<and>
      localStorage p' ''theme'' = Some ''dark'')"
proof -
  have a: "themeToggle example_page \<noteq> None" by (simp add: example_page_def)
  have b: "\<not> classList_contains ''dark-mode'' (body_classList example_page)"
    by (simp add: example_page_def classList_contains_def)
  show ?thesis
    using a b C6_toggle_click_persists_opposite [OF a] by auto
qed

text \<open>
  On a first visit nothing is stored; two clicks later "light" is stored. The persisted
  value is not the original one.
\<close>

theorem C2_counterexample:
  "localStorage (state_of (themeToggle_click (state_of (themeToggle_click example_page)))) ''theme''
     \<noteq> localStorage example_page ''theme''"
  by (simp add: example_page_def themeToggle_click_def applyTheme_def and_then_def setItem_def
      classList_contains_def classList_add_def classList_remove_def Let_def)

text \<open>
  Claim C2, amended. Two clicks on the toggle button restore the presence or absence of
  the dark-mode class. The glyph and the stored value after the two clicks are those of
  that class state (sun glyph and "dark" with the class, moon glyph and "light" without
  it), whatever they were before; so they are restored exactly when they already agreed
  with the body class, as they do after any earlier click: a third click gives back the
  page of the first.
\<close>

theorem C2_double_toggle:
  assumes "themeToggle p \<noteq> None"
  shows "\<exists>p1 p2. themeToggle_click p = Done p1 \<and> themeToggle_click p1 = Done p2 \<and>
           (classList_contains ''dark-mode'' (body_classList p2)
              \<longleftrightarrow> classList_contains ''dark-mode'' (body_classList p)) \<and>
           themeToggle p2 =
             Some (if classList_contains ''dark-mode'' (body_classList p)
                   then sun_glyph else moon_glyph) \<and>
           localStorage p2 =
             (localStorage p)(''theme'' \<mapsto>
                (if classList_contains ''dark-mode'' (body_classList p)
                 then ''dark'' else ''light'')) \<and>
           themeToggle_click p2 = Done p1"
proof -
  from assms obtain g where g: "themeToggle p = Some g" by auto
  show ?thesis
  proof (cases "classList_contains ''dark-mode'' (body_classList p)")
    case True
    then show ?thesis
      by (simp add: themeToggle_click_def applyTheme_present [OF g] applyTheme_present
          and_then_def setItem_def Let_def remove_add)
  next
    case False
    then show ?thesis
      by (simp add: themeToggle_click_def applyTheme_present [OF g] applyTheme_present
          and_then_def setItem_def Let_def remove_add)
  qed
qed

theorem C2_witness:
  "themeToggle example_page \<noteq> None \<and>
   (\<exists>p1 p2. themeToggle_click example_page = Done p1 \<and> themeToggle_click p1 = Done p2 \<and>
      \<not> classList_contains ''dark-mode'' (body_classList p2) \<and>
      themeToggle p2 = Some moon_glyph \<and>
      localStorage p2 ''theme'' = Some ''light'' \<and>
      themeToggle_click p2 = Done p1)"
proof -
  have a: "themeToggle example_page \<noteq> None" by (simp add: example_page_def)
  have b: "\<not> classList_contains ''dark-mode'' (body_classList example_page)"
    by (simp add: example_page_def classList_contains_def)
  show ?thesis
    using a b C2_double_toggle [OF a] by auto
qed

section \<open>The storage under all events\<close>

lemma foldl_on_entry_storage: "localStorage (foldl on_entry p es) = localStorage p"
  by (induction es arbitrary: p) (simp_all add: on_entry_def)

lemma domContentLoaded_storage:
  "localStorage (state_of (domContentLoaded p)) = localStorage p"
proof (cases "themeToggle p")
  case None
  then show ?thesis
    by (simp add: domContentLoaded_def initThemeToggle_def applyTheme_absent perform_def
        and_then_def Let_def)
next
  case (Some g)
  then show ?thesis using domContentLoaded_present [OF Some] by auto
qed

lemma themeToggle_click_storage:
  "localStorage (state_of (themeToggle_click p)) = localStorage p \<or>
   localStorage (state_of (themeToggle_click p)) = (localStorage p)(''theme'' \<mapsto> ''light'') \<or>
   localStorage (state_of (themeToggle_click p)) = (localStorage p)(''theme'' \<mapsto> ''dark'')"
proof (cases "themeToggle p")
  case None
  then show ?thesis
    by (simp add: themeToggle_click_def applyTheme_absent and_then_def Let_def)
next
  case (Some g)
  then show ?thesis
    by (simp add: themeToggle_click_def applyTheme_present [OF Some] and_then_def setItem_def Let_def)
qed

lemma navLink_click_storage:
  "localStorage (state_of (navLink_click i p)) = localStorage p"
  by (simp add: navLink_click_def perform_def Let_def split: sum.splits option.splits)

lemma fire_storage_other:
  "e \<noteq> ToggleClicked \<Longrightarrow> localStorage (state_of (fire e p)) = localStorage p"
  by (cases e)
     (simp_all add: domContentLoaded_storage navLink_click_storage scroll_handler_def Let_def
        observer_callback_def foldl_on_entry_storage card_mouseenter_def card_mouseleave_def
        projectLink_click_def perform_def split: option.splits)

lemma fire_storage:
  "localStorage (state_of (fire e p)) = localStorage p \<or>
   localStorage (state_of (fire e p)) = (localStorage p)(''theme'' \<mapsto> ''light'') \<or>
   localStorage (state_of (fire e p)) = (localStorage p)(''theme'' \<mapsto> ''dark'')"
proof (cases "e = ToggleClicked")
  case True
  then show ?thesis using themeToggle_click_storage [of p] by simp
next
  case False
  then show ?thesis by (simp add: fire_storage_other)
qed

lemma fire_recognized: "recognized_theme p \<Longrightarrow> recognized_theme (state_of (fire e p))"
  using fire_storage [of e p] by (auto simp add: recognized_theme_def)

lemma run_recognized: "recognized_theme p \<Longrightarrow> recognized_theme (run es p)"
  by (induction es arbitrary: p) (simp_all add: fire_recognized)

lemma script_load_storage: "localStorage (state_of (script_load p)) = localStorage p"
proof -
  have "localStorage (foldl (\<lambda>q i. addEventListener (NavLink i) ''click'' q) p js) = localStorage p"
    for js
    by (induction js arbitrary: p) (simp_all add: addEventListener_def)
  then show ?thesis by (simp add: script_load_def addEventListener_def)
qed

text \<open>
  Claim C8. Whatever event is delivered, the storage afterwards is the storage before,
  or the storage before with "light" or with "dark" under the theme key; every event
  other than the toggle click, and the loading of the script, leave the storage alone.
  Hence a stored theme that is absent, "light" or "dark" stays so over any sequence of
  events.
\<close>

theorem C8_only_light_or_dark_written:
  "(localStorage (state_of (fire e p)) = localStorage p \<or>
    localStorage (state_of (fire e p)) = (localStorage p)(''theme'' \<mapsto> ''light'') \<or>
    localStorage (state_of (fire e p)) = (localStorage p)(''theme'' \<mapsto> ''dark'')) \<and>
   (e \<noteq> ToggleClicked \<longrightarrow> localStorage (state_of (fire e p)) = localStorage p) \<and>
   localStorage (state_of (script_load p)) = localStorage p \<and>
   (recognized_theme p \<longrightarrow> recognized_theme (run es p))"
  using fire_storage [of e p] fire_storage_other [of e p] run_recognized [of p es]
    script_load_storage [of p]
  by blast

theorem C8_witness:
  "Loaded \<noteq> ToggleClicked \<and>
   localStorage (state_of (fire Loaded (state_of (script_load example_page)))) =
     localStorage (state_of (script_load example_page)) \<and>
   recognized_theme loaded_page \<and>
   recognized_theme (run [ToggleClicked, Scrolled 700, ToggleClicked, ToggleClicked] loaded_page) \<and>
   localStorage (run [ToggleClicked, Scrolled 700, ToggleClicked, ToggleClicked] loaded_page) ''theme''
     = Some ''dark''"
proof -
  have a: "Loaded \<noteq> ToggleClicked" by simp
  have b: "recognized_theme loaded_page" by code_simp
  have c: "localStorage (run [ToggleClicked, Scrolled 700, ToggleClicked, ToggleClicked] loaded_page)
      ''theme'' = Some ''dark''"
    by code_simp
  show ?thesis
    using a b c
      C8_only_light_or_dark_written [of Loaded "state_of (script_load example_page)" "[]"]
      C8_only_light_or_dark_written
        [of Loaded loaded_page "[ToggleClicked, Scrolled 700, ToggleClicked, ToggleClicked]"]
    by blast
qed

section \<open>Active link tracking\<close>

lemma scan_last:
  "foldl (\<lambda>cur section. if qualifies p section then id_attr section else cur) acc xs =
     (case filter (qualifies p) xs of [] \<Rightarrow> acc | q # qs \<Rightarrow> id_attr (last (q # qs)))"
proof (induction xs rule: rev_induct)
  case Nil
  then show ?case by simp
next
  case (snoc x xs)
  then show ?case by (simp split: list.splits)
qed

lemma currentSection_last_qualifying:
  "currentSection p = (case last_qualifying p of None \<Rightarrow> Some [] | Some s \<Rightarrow> id_attr s)"
  using scan_last [of p "Some []" "sections p"]
  by (simp add: currentSection_def last_qualifying_def qualifies_def split: list.splits)

lemma update_link_active:
  "is_active (update_link cur l) \<longleftrightarrow> href l = Some (''#'' @ template_string cur)"
  by (simp add: update_link_def is_active_def Let_def)

lemma update_link_href: "href (update_link cur l) = href l"
  by (simp add: update_link_def Let_def)

lemma distinct_filter_le_1:
  "distinct (map f xs) \<Longrightarrow> length (filter (\<lambda>x. f x = v) xs) \<le> 1"
proof (induction xs)
  case Nil
  then show ?case by simp
next
  case (Cons x xs)
  show ?case
  proof (cases "f x = v")
    case True
    with Cons.prems have "\<forall>y\<in>set xs. f y \<noteq> v" by (auto simp add: image_iff)
    then have "filter (\<lambda>x. f x = v) xs = []" by (simp add: filter_empty_conv)
    with True show ?thesis by simp
  next
    case False
    with Cons show ?thesis by simp
  qed
qed

lemma filter_active_update:
  "filter is_active (map (update_link cur) ls) =
     map (update_link cur) (filter (\<lambda>l. href l = Some (''#'' @ template_string cur)) ls)"
  by (induction ls) (simp_all add: update_link_active)

text \<open>Two links to the same section are both active after a scroll.\<close>

theorem C1_counterexample:
  "length (filter is_active (navLinks (state_of (scroll_handler duplicate_links_page)))) = 2"
  by (simp add: duplicate_links_page_def example_page_def scroll_handler_def currentSection_def
      update_link_def is_active_def template_string_def classList_contains_def
      classList_add_def classList_remove_def Let_def)

text \<open>
  Claim C1, amended. After the scroll listener has run, a nav link carries the class
  "active" exactly when its href is "#" followed by the id of the last section or header
  element, in document order, whose offsetTop less 100 is at most the scroll offset;
  that id reads as the empty string when no element qualifies and as "null" when the
  element has no id. The hrefs are untouched. At most one link is active when no two
  nav links have the same href.
\<close>

theorem C1_active_link_matches_last_section:
  "\<exists>p'. scroll_handler p = Done p' \<and>
     length (navLinks p') = length (navLinks p) \<and>
     (\<forall>i < length (navLinks p).
        href (navLinks p' ! i) = href (navLinks p ! i) \<and>
        (is_active (navLinks p' ! i) \<longleftrightarrow>
           href (navLinks p ! i) =
             Some (''#'' @ (case last_qualifying p of None \<Rightarrow> []
                            | Some s \<Rightarrow> template_string (id_attr s))))) \<and>
     (distinct (map href (navLinks p)) \<longrightarrow> length (filter is_active (navLinks p')) \<le> 1)"
proof -
  let ?cur = "currentSection p"
  have cur: "template_string ?cur =
      (case last_qualifying p of None \<Rightarrow> [] | Some s \<Rightarrow> template_string (id_attr s))"
    by (simp add: currentSection_last_qualifying template_string_def split: option.splits)
  have "distinct (map href (navLinks p)) \<Longrightarrow>
      length (filter is_active (map (update_link ?cur) (navLinks p))) \<le> 1"
    using distinct_filter_le_1 [of href "navLinks p" "Some (''#'' @ template_string ?cur)"]
    by (simp add: filter_active_update)
  then show ?thesis
    using cur by (simp add: scroll_handler_def update_link_active update_link_href)
qed

theorem C1_witness:
  "distinct (map href (navLinks (example_page\<lparr>pageYOffset := 520\<rparr>))) \<and>
   last_qualifying (example_page\<lparr>pageYOffset := 520\<rparr>) =
     Some \<lparr>id_attr = Some ''about'', offsetTop = 600\<rparr> \<and>
   (\<exists>p'. scroll_handler (example_page\<lparr>pageYOffset := 520\<rparr>) = Done p' \<and>
      length (filter is_active (navLinks p')) \<le> 1 \<and>
      is_active (navLinks p' ! 0) \<and> \<not> is_active (navLinks p' ! 1))"
proof -
  let ?p = "example_page\<lparr>pageYOffset := 520\<rparr>"
  have d: "distinct (map href (navLinks ?p))" by (simp add: example_page_def)
  have l: "last_qualifying ?p = Some \<lparr>id_attr = Some ''about'', offsetTop = 600\<rparr>"
    by (simp add: last_qualifying_def qualifies_def example_page_def)
  have n: "navLinks ?p = [\<lparr>href = Some ''#about'', link_classList = [''nav-link'']\<rparr>,
                  \<lparr>href = Some ''#projects'', link_classList = [''nav-link'', ''active'']\<rparr>,
                  \<lparr>href = Some ''#contact'', link_classList = [''nav-link'']\<rparr>]"
    by (simp add: example_page_def)
  obtain p' where p': "scroll_handler ?p = Done p'"
    and len: "length (navLinks p') = length (navLinks ?p)"
    and act: "\<forall>i < length (navLinks ?p).
        href (navLinks p' ! i) = href (navLinks ?p ! i) \<and>
        (is_active (navLinks p' ! i) \<longleftrightarrow>
           href (navLinks ?p ! i) =
             Some (''#'' @ (case last_qualifying ?p of None \<Rightarrow> []
                            | Some s \<Rightarrow> template_string (id_attr s))))"
    and one: "distinct (map href (navLinks ?p)) \<longrightarrow> length (filter is_active (navLinks p')) \<le> 1"
    using C1_active_link_matches_last_section [of ?p] by blast
  have a0: "is_active (navLinks p' ! 0)"
    using act [rule_format, of 0] by (simp add: n l template_string_def)
  have a1: "\<not> is_active (navLinks p' ! 1)"
    using act [rule_format, of 1] by (simp add: n l template_string_def)
  show ?thesis using d l p' one a0 a1 by blast
qed

text \<open>
  Claim C10. When the last qualifying section or header element has no id and no nav
  link has the href "#null", the scroll listener leaves no nav link active.
\<close>

theorem C10_section_without_id:
  assumes "last_qualifying p = Some s" and "id_attr s = None"
    and "\<forall>l \<in> set (navLinks p). href l \<noteq> Some ''#null''"
  shows "\<exists>p'. scroll_handler p = Done p' \<and>
           length (navLinks p') = length (navLinks p) \<and>
           (\<forall>l \<in> set (navLinks p'). \<not> is_active l)"
proof -
  have "currentSection p = None"
    using assms(1,2) by (simp add: currentSection_last_qualifying)
  then show ?thesis
    using assms(3) by (simp add: scroll_handler_def update_link_active template_string_def)
qed

theorem C10_witness:
  "last_qualifying anonymous_section_page = Some \<lparr>id_attr = None, offsetTop = 600\<rparr> \<and>
   map href (navLinks anonymous_section_page) =
     [Some ''#about'', Some ''#projects'', Some ''#contact''] \<and>
   map is_active (navLinks anonymous_section_page) = [False, True, False] \<and>
   (\<exists>p'. scroll_handler anonymous_section_page = Done p' \<and>
           map is_active (navLinks p') = [False, False, False])"
proof -
  have a: "last_qualifying anonymous_section_page = Some \<lparr>id_attr = None, offsetTop = 600\<rparr>"
    by (simp add: last_qualifying_def qualifies_def anonymous_section_page_def example_page_def)
  have b: "id_attr \<lparr>id_attr = None, offsetTop = 600\<rparr> = None" by simp
  have hs: "map href (navLinks anonymous_section_page) =
     [Some ''#about'', Some ''#projects'', Some ''#contact'']"
    by (simp add: anonymous_section_page_def example_page_def)
  have c: "\<forall>l \<in> set (navLinks anonymous_section_page). href l \<noteq> Some ''#null''"
    by (simp add: anonymous_section_page_def example_page_def)
  have d: "map is_active (navLinks anonymous_section_page) = [False, True, False]"
    by (simp add: anonymous_section_page_def example_page_def is_active_def classList_contains_def)
  have e: "length (navLinks anonymous_section_page) = 3"
    by (simp add: anonymous_section_page_def example_page_def)
  obtain p' where p': "scroll_handler anonymous_section_page = Done p'"
    and len: "length (navLinks p') = length (navLinks anonymous_section_page)"
    and none: "\<forall>l \<in> set (navLinks p'). \<not> is_active l"
    using C10_section_without_id [OF a b c] by blast
  from len e obtain l0 l1 l2 where ls: "navLinks p' = [l0, l1, l2]"
    by (auto simp add: length_Suc_conv numeral_3_eq_3)
  have "map is_active (navLinks p') = [False, False, False]"
    using none by (simp add: ls)
  then show ?thesis using a hs d p' by simp
qed

section \<open>Nav link clicks\<close>

text \<open>
  A nav link with the href "#": no element matches it, the click listener is attached,
  and the click ends in an uncaught SyntaxError after the default was suppressed.
\<close>

theorem C3_counterexample:
  "querySelector bare_hash_page (template_string (href (navLinks bare_hash_page ! 0)))
     = Inl SyntaxError \<and>
   listening (NavLink 0) ''click'' (state_of (script_load bare_hash_page)) \<and>
   threw (fire (NavLinkClicked 0) (state_of (script_load bare_hash_page))) \<and>
   effects (state_of (fire (NavLinkClicked 0) (state_of (script_load bare_hash_page))))
     = [PreventDefault]"
proof -
  have a: "querySelector bare_hash_page (template_string (href (navLinks bare_hash_page ! 0)))
     = Inl SyntaxError"
    by (simp add: bare_hash_page_def example_page_def template_string_def)
  have b: "listening (NavLink 0) ''click'' (state_of (script_load bare_hash_page))"
    by code_simp
  have c: "threw (fire (NavLinkClicked 0) (state_of (script_load bare_hash_page)))"
    by code_simp
  have d: "effects (state_of (fire (NavLinkClicked 0) (state_of (script_load bare_hash_page))))
     = [PreventDefault]"
    by code_simp
  show ?thesis using a b c d by simp
qed

text \<open>
  Claim C3, amended. A click on nav link \<open>i\<close> first suppresses the default navigation.
  When the selector query on the link's href returns an element, the listener asks the
  window to scroll smoothly to that element's offsetTop less 60. When the query returns
  null (the href is a selector that matches nothing), the listener ends normally and the
  page is unchanged but for the suppressed default: no scroll is requested and nothing
  is thrown. When the query rejects the href as no selector, its error leaves the
  listener uncaught, after the default was suppressed and with no scroll requested.
\<close>

theorem C3_nav_click_outcomes:
  "(querySelector p (template_string (href (navLinks p ! i))) = Inr (Some t) \<longrightarrow>
      effects (state_of (navLink_click i p)) =
        effects p @ [PreventDefault, ScrollTo (offsetTop t - 60) ''smooth'']) \<and>
   (querySelector p (template_string (href (navLinks p ! i))) = Inr None \<longrightarrow>
      navLink_click i p = Done (p\<lparr>effects := effects p @ [PreventDefault]\<rparr>)) \<and>
   (querySelector p (template_string (href (navLinks p ! i))) = Inl e \<longrightarrow>
      navLink_click i p = Threw e (p\<lparr>effects := effects p @ [PreventDefault]\<rparr>))"
  by (simp add: navLink_click_def perform_def Let_def split: option.splits)

theorem C3_witness:
  "querySelector example_page (template_string (href (navLinks example_page ! 0))) =
     Inr (Some \<lparr>id_attr = Some ''about'', offsetTop = 600\<rparr>) \<and>
   effects (state_of (navLink_click 0 example_page)) = [PreventDefault, ScrollTo 540 ''smooth''] \<and>
   querySelector example_page (template_string (href (navLinks example_page ! 2))) = Inr None \<and>
   navLink_click 2 example_page = Done (example_page\<lparr>effects := [PreventDefault]\<rparr>) \<and>
   querySelector bare_hash_page (template_string (href (navLinks bare_hash_page ! 0))) =
     Inl SyntaxError \<and>
   navLink_click 0 bare_hash_page = Threw SyntaxError (bare_hash_page\<lparr>effects := [PreventDefault]\<rparr>)"
proof -
  let ?about = "\<lparr>id_attr = Some ''about'', offsetTop = 600\<rparr>"
  have a: "querySelector example_page (template_string (href (navLinks example_page ! 0))) =
     Inr (Some ?about)"
    by (simp add: example_page_def template_string_def)
  have b: "querySelector example_page (template_string (href (navLinks example_page ! 2))) = Inr None"
    by (simp add: example_page_def template_string_def)
  have c: "querySelector bare_hash_page (template_string (href (navLinks bare_hash_page ! 0))) =
     Inl SyntaxError"
    by (simp add: bare_hash_page_def example_page_def template_string_def)
  have e: "effects example_page = []" by (simp add: example_page_def)
  have f: "effects bare_hash_page = []" by (simp add: bare_hash_page_def example_page_def)
  show ?thesis
    using a b c
      C3_nav_click_outcomes [of example_page 0 ?about SyntaxError]
      C3_nav_click_outcomes [of example_page 2 ?about SyntaxError]
      C3_nav_click_outcomes [of bare_hash_page 0 ?about SyntaxError]
    by (simp add: e f)
qed

section \<open>The reveal latch\<close>

lemma length_map_at [simp]: "length (map_at i f xs) = length xs"
  by (simp add: map_at_def)

lemma nth_map_at:
  "j < length xs \<Longrightarrow> map_at i f xs ! j = (if j = i then f (xs ! j) else xs ! j)"
  by (simp add: map_at_def)

lemma is_visible_reveal [simp]: "is_visible (reveal el)"
  by (simp add: is_visible_def reveal_def)

lemma hidden_not_visible: "hidden_at i p \<Longrightarrow> \<not> visible_at i p"
  by (simp add: hidden_at_def visible_at_def is_hidden_def is_visible_def)

lemma on_entry_visible: "visible_at i p \<Longrightarrow> visible_at i (on_entry p e)"
  by (simp add: on_entry_def visible_at_def nth_map_at)

lemma on_entry_observed: "observed (on_entry p e) \<subseteq> observed p"
  by (auto simp add: on_entry_def)

lemma on_entry_reveals_unobserves:
  "\<not> visible_at i p \<Longrightarrow> visible_at i (on_entry p e) \<Longrightarrow> i \<notin> observed (on_entry p e)"
  by (auto simp add: on_entry_def visible_at_def nth_map_at split: if_splits)

lemma foldl_on_entry_visible: "visible_at i p \<Longrightarrow> visible_at i (foldl on_entry p es)"
  by (induction es arbitrary: p) (simp_all add: on_entry_visible)

lemma foldl_on_entry_observed: "observed (foldl on_entry p es) \<subseteq> observed p"
proof (induction es arbitrary: p)
  case Nil
  then show ?case by simp
next
  case (Cons e es)
  have "observed (foldl on_entry (on_entry p e) es) \<subseteq> observed (on_entry p e)"
    by (rule Cons.IH)
  also have "\<dots> \<subseteq> observed p" by (rule on_entry_observed)
  finally show ?case by simp
qed

lemma foldl_on_entry_reveals_unobserves:
  "\<not> visible_at i p \<Longrightarrow> visible_at i (foldl on_entry p es) \<Longrightarrow>
   i \<notin> observed (foldl on_entry p es)"
proof (induction es arbitrary: p)
  case Nil
  then show ?case by simp
next
  case (Cons e es)
  show ?case
  proof (cases "visible_at i (on_entry p e)")
    case True
    with Cons.prems(1) have "i \<notin> observed (on_entry p e)"
      by (rule on_entry_reveals_unobserves)
    then show ?thesis using foldl_on_entry_observed [of "on_entry p e" es] by auto
  next
    case False
    then show ?thesis using Cons.IH [of "on_entry p e"] Cons.prems(2) by simp
  qed
qed

lemma trace_visible: "visible_at i p \<Longrightarrow> q \<in> set (trace ns p) \<Longrightarrow> visible_at i q"
proof (induction ns arbitrary: p)
  case Nil
  then show ?case by simp
next
  case (Cons n ns)
  have "visible_at i (state_of (observer_callback n p))"
    using Cons.prems(1) by (simp add: observer_callback_def foldl_on_entry_visible)
  then show ?case using Cons.IH Cons.prems by auto
qed

lemma trace_unobserved: "i \<notin> observed p \<Longrightarrow> q \<in> set (trace ns p) \<Longrightarrow> i \<notin> observed q"
proof (induction ns arbitrary: p)
  case Nil
  then show ?case by simp
next
  case (Cons n ns)
  have "i \<notin> observed (state_of (observer_callback n p))"
    using Cons.prems(1) foldl_on_entry_observed [of p n] by (auto simp add: observer_callback_def)
  then show ?case using Cons.IH Cons.prems by auto
qed

lemma trace_hd: "\<exists>tr. trace ns p = p # tr"
  by (cases ns) simp_all

lemma reveals_visible: "visible_at i p \<Longrightarrow> reveals i (trace ns p) = 0"
proof -
  assume v: "visible_at i p"
  have "\<And>a b. (a, b) \<in> set (zip (trace ns p) (tl (trace ns p))) \<Longrightarrow> \<not> hidden_at i a"
    using trace_visible [OF v] hidden_not_visible by (meson set_zip_leftD)
  then show ?thesis by (auto simp add: reveals_def filter_empty_conv)
qed

lemma reveals_le_1: "reveals i (trace ns p) \<le> 1"
proof (induction ns arbitrary: p)
  case Nil
  then show ?case by (simp add: reveals_def)
next
  case (Cons n ns)
  let ?p' = "state_of (observer_callback n p)"
  obtain tr where tr: "trace ns ?p' = ?p' # tr" using trace_hd by blast
  have step: "reveals i (trace (n # ns) p) =
      (if hidden_at i p \<and> visible_at i ?p' then 1 else 0) + reveals i (trace ns ?p')"
    by (simp add: reveals_def tr)
  show ?case
  proof (cases "visible_at i ?p'")
    case True
    then show ?thesis using step reveals_visible [of i ?p' ns] by simp
  next
    case False
    then show ?thesis using step Cons.IH [of ?p'] by simp
  qed
qed

text \<open>
  Claim C4. Over any sequence of intersection notifications, element \<open>i\<close> goes from hidden
  to visible in at most one step; once visible it is visible in every later page; a
  callback that takes it from hidden to visible leaves it unobserved, and it stays
  unobserved in every later page. \<open>initScrollReveal\<close> starts every reveal element hidden
  and observed.
\<close>

theorem C4_reveal_latch:
  "reveals i (trace ns p) \<le> 1 \<and>
   (visible_at i p \<longrightarrow> (\<forall>q \<in> set (trace ns p). visible_at i q)) \<and>
   (hidden_at i p \<and> visible_at i (state_of (observer_callback es p)) \<longrightarrow>
      i \<notin> observed (state_of (observer_callback es p)) \<and>
      (\<forall>q \<in> set (trace ns (state_of (observer_callback es p))). i \<notin> observed q)) \<and>
   (i < length (revealElements p) \<longrightarrow>
      hidden_at i (state_of (initScrollReveal p)) \<and> i \<in> observed (state_of (initScrollReveal p)))"
proof -
  have a: "visible_at i p \<longrightarrow> (\<forall>q \<in> set (trace ns p). visible_at i q)"
    using trace_visible by blast
  have b: "hidden_at i p \<and> visible_at i (state_of (observer_callback es p)) \<longrightarrow>
      i \<notin> observed (state_of (observer_callback es p)) \<and>
      (\<forall>q \<in> set (trace ns (state_of (observer_callback es p))). i \<notin> observed q)"
  proof (intro impI)
    assume h: "hidden_at i p \<and> visible_at i (state_of (observer_callback es p))"
    then have "i \<notin> observed (state_of (observer_callback es p))"
      using foldl_on_entry_reveals_unobserves [of i p es] hidden_not_visible [of i p]
      by (simp add: observer_callback_def)
    then show "i \<notin> observed (state_of (observer_callback es p)) \<and>
      (\<forall>q \<in> set (trace ns (state_of (observer_callback es p))). i \<notin> observed q)"
      using trace_unobserved by blast
  qed
  have c: "i < length (revealElements p) \<longrightarrow>
      hidden_at i (state_of (initScrollReveal p)) \<and> i \<in> observed (state_of (initScrollReveal p))"
    by (simp add: initScrollReveal_def hidden_at_def is_hidden_def hide_def)
  show ?thesis using reveals_le_1 a b c by blast
qed

theorem C4_witness:
  "1 < length (revealElements example_page) \<and>
   hidden_at 1 (state_of (initScrollReveal example_page)) \<and>
   1 \<in> observed (state_of (initScrollReveal example_page)) \<and>
   visible_at 1 (state_of (observer_callback [card_enters] (state_of (initScrollReveal example_page)))) \<and>
   1 \<notin> observed (state_of (observer_callback [card_enters] (state_of (initScrollReveal example_page)))) \<and>
   reveals 1 (trace [[card_leaves], [card_enters], [card_leaves], [card_enters]]
                (state_of (initScrollReveal example_page))) = 1 \<and>
   visible_at 1 (last (trace [[card_leaves], [card_enters]]
                   (state_of (observer_callback [card_enters]
                      (state_of (initScrollReveal example_page)))))) \<and>
   1 \<notin> observed (last (trace [[card_leaves], [card_enters]]
                   (state_of (observer_callback [card_enters]
                      (state_of (initScrollReveal example_page))))))"
proof -
  let ?h = "state_of (initScrollReveal example_page)"
  let ?v = "state_of (observer_callback [card_enters] ?h)"
  let ?ns = "[[card_leaves], [card_enters]]"
  have a: "1 < length (revealElements example_page)" by (simp add: example_page_def)
  have b: "visible_at 1 ?v" by code_simp
  have c: "reveals 1 (trace [[card_leaves], [card_enters], [card_leaves], [card_enters]] ?h) = 1"
    by code_simp
  have h: "hidden_at 1 ?h"
    using a C4_reveal_latch [of 1 "[]" example_page "[]"] by blast
  have "trace ?ns ?v \<noteq> []" using trace_hd [of ?ns ?v] by auto
  then have m: "last (trace ?ns ?v) \<in> set (trace ?ns ?v)" by (rule last_in_set)
  show ?thesis
    using a b c h m
      C4_reveal_latch [of 1 "[]" example_page "[]"]
      C4_reveal_latch [of 1 ?ns ?h "[card_enters]"]
      C4_reveal_latch [of 1 ?ns ?v "[]"]
    by blast
qed

section \<open>Presence checks\<close>

lemma perform_fields [simp]:
  "themeToggle (perform x p) = themeToggle p"
  "revealElements (perform x p) = revealElements p"
  "listeners (perform x p) = listeners p"
  by (simp_all add: perform_def)

lemma init_card_link:
  "listening (CardLink i) ''click'' (init_card p j) \<longleftrightarrow>
     listening (CardLink i) ''click'' p \<or> (i = j \<and> project_link (revealElements p ! j))"
  by (auto simp add: init_card_def listening_def addEventListener_def Let_def)

lemma init_card_revealElements: "revealElements (init_card p j) = revealElements p"
  by (simp add: init_card_def addEventListener_def Let_def)

lemma foldl_init_card_link:
  "listening (CardLink i) ''click'' (foldl init_card p js) \<longleftrightarrow>
     listening (CardLink i) ''click'' p \<or> (i \<in> set js \<and> project_link (revealElements p ! i))"
proof (induction js arbitrary: p)
  case Nil
  then show ?case by simp
next
  case (Cons j js)
  show ?case
    using Cons.IH [of "init_card p j"]
    by (auto simp add: init_card_link init_card_revealElements)
qed

lemma projectCards_iff:
  "i \<in> set (projectCards p) \<longleftrightarrow>
     i < length (revealElements p) \<and> project_card (revealElements p ! i)"
  by (auto simp add: projectCards_def)

lemma domContentLoaded_absent:
  "themeToggle p = None \<Longrightarrow> \<exists>q. domContentLoaded p = Threw TypeError q"
  by (simp add: domContentLoaded_def initThemeToggle_def applyTheme_absent perform_def
      and_then_def Let_def)

lemma domContentLoaded_links:
  assumes "themeToggle p = Some g"
  shows "\<exists>q. domContentLoaded p = Done q \<and>
     (\<forall>i. listening (CardLink i) ''click'' q \<longleftrightarrow>
           listening (CardLink i) ''click'' p \<or>
           (i < length (revealElements p) \<and> project_card (revealElements p ! i) \<and>
            project_link (revealElements p ! i)))"
proof -
  define p4 where "p4 = state_of (and_then (and_then (and_then
       (initThemeToggle (perform (ConsoleLog ''Portfolio loaded and initialized'') p))
       initScrollReveal) initActiveNavTracking) addActiveNavStyles)"
  have g': "themeToggle (perform (ConsoleLog ''Portfolio loaded and initialized'') p) = Some g"
    using assms by simp
  have d: "and_then (and_then (and_then
       (initThemeToggle (perform (ConsoleLog ''Portfolio loaded and initialized'') p))
       initScrollReveal) initActiveNavTracking) addActiveNavStyles = Done p4"
    unfolding p4_def
    by (simp add: initThemeToggle_present [OF g'] and_then_def initScrollReveal_def
        initActiveNavTracking_def addActiveNavStyles_def)
  have r: "revealElements p4 = map hide (revealElements p)"
    unfolding p4_def
    by (simp add: initThemeToggle_present [OF g'] and_then_def initScrollReveal_def
        initActiveNavTracking_def addActiveNavStyles_def addEventListener_def)
  have l: "listening (CardLink i) ''click'' p4 = listening (CardLink i) ''click'' p" for i
    unfolding p4_def
    by (simp add: initThemeToggle_present [OF g'] and_then_def initScrollReveal_def
        initActiveNavTracking_def addActiveNavStyles_def addEventListener_def listening_def)
  have "domContentLoaded p = Done (foldl init_card p4 (projectCards p4))"
    unfolding domContentLoaded_def d by (simp add: and_then_def initProjectCardInteractions_def)
  moreover have "listening (CardLink i) ''click'' (foldl init_card p4 (projectCards p4)) \<longleftrightarrow>
           listening (CardLink i) ''click'' p \<or>
           (i < length (revealElements p) \<and> project_card (revealElements p ! i) \<and>
            project_link (revealElements p ! i))" for i
    by (auto simp add: foldl_init_card_link projectCards_iff l r hide_def)
  ultimately show ?thesis by simp
qed

text \<open>
  With no nav links at all the script loads and the load handler runs without a fault;
  with no nav menu container a click on a nav link whose target exists throws after the
  scroll request; with a project link but no project title a click on the link throws.
\<close>

theorem C7_counterexample:
  "\<not> threw (script_load no_nav_links_page) \<and>
   listening Document ''DOMContentLoaded'' (state_of (script_load no_nav_links_page)) \<and>
   \<not> threw (fire Loaded (state_of (script_load no_nav_links_page))) \<and>
   threw (fire (NavLinkClicked 0) (state_of (script_load no_nav_menu_page))) \<and>
   effects (state_of (fire (NavLinkClicked 0) (state_of (script_load no_nav_menu_page)))) =
     [PreventDefault, ScrollTo 540 ''smooth''] \<and>
   threw (fire (ProjectLinkClicked 0)
            (state_of (fire Loaded (state_of (script_load untitled_card_page)))))"
  by code_simp

text \<open>
  Claim C7, amended. Loading the script never faults, whatever the nav links, and the
  load handler faults exactly when the toggle button is missing, with a TypeError; with
  the button present it completes for any cards, links, titles, nav links and nav menu.
  A click listener is attached to a project link exactly for the project cards that have
  one, so a card without a link has no such listener and a click there does nothing; the
  pointer listeners of a card never throw.
\<close>

theorem C7_guards:
  "\<not> threw (script_load p) \<and>
   (themeToggle p = None \<longrightarrow> (\<exists>q. domContentLoaded p = Threw TypeError q)) \<and>
   (themeToggle p \<noteq> None \<longrightarrow>
      (\<exists>q. domContentLoaded p = Done q \<and>
         (\<forall>i. listening (CardLink i) ''click'' q \<longleftrightarrow>
               listening (CardLink i) ''click'' p \<or>
               (i < length (revealElements p) \<and> project_card (revealElements p ! i) \<and>
                project_link (revealElements p ! i))))) \<and>
   \<not> threw (fire (CardEntered i) p) \<and>
   \<not> threw (fire (CardLeft i) p) \<and>
   (\<not> listening (CardLink i) ''click'' p \<longrightarrow> fire (ProjectLinkClicked i) p = Done p)"
proof -
  have a: "\<not> threw (script_load p)" by (simp add: script_load_def)
  have b: "themeToggle p = None \<longrightarrow> (\<exists>q. domContentLoaded p = Threw TypeError q)"
    using domContentLoaded_absent by blast
  have c: "themeToggle p \<noteq> None \<longrightarrow>
      (\<exists>q. domContentLoaded p = Done q \<and>
         (\<forall>i. listening (CardLink i) ''click'' q \<longleftrightarrow>
               listening (CardLink i) ''click'' p \<or>
               (i < length (revealElements p) \<and> project_card (revealElements p ! i) \<and>
                project_link (revealElements p ! i))))"
    using domContentLoaded_links [of p] by auto
  have d: "\<not> threw (fire (CardEntered i) p) \<and> \<not> threw (fire (CardLeft i) p)"
    by (simp add: card_mouseenter_def card_mouseleave_def)
  have e: "\<not> listening (CardLink i) ''click'' p \<longrightarrow> fire (ProjectLinkClicked i) p = Done p"
    by simp
  show ?thesis using a b c d e by blast
qed

theorem C7_witness:
  "themeToggle no_toggle_page = None \<and>
   (\<exists>q. domContentLoaded no_toggle_page = Threw TypeError q) \<and>
   themeToggle example_page \<noteq> None \<and>
   (\<exists>q. domContentLoaded example_page = Done q \<and>
      \<not> listening (CardLink 0) ''click'' q \<and> listening (CardLink 1) ''click'' q) \<and>
   \<not> listening (CardLink 0) ''click'' example_page \<and>
   fire (ProjectLinkClicked 0) example_page = Done example_page"
proof -
  have a: "themeToggle no_toggle_page = None" by (simp add: no_toggle_page_def)
  have b: "themeToggle example_page \<noteq> None" by (simp add: example_page_def)
  have c: "\<not> listening (CardLink i) ''click'' example_page" for i
    by (simp add: example_page_def listening_def)
  have els: "revealElements example_page =
        [\<lparr>project_card = False, opacity = [], transform = [], transition = [],
           zIndex = [], project_link = False, project_title = None\<rparr>,
         \<lparr>project_card = True, opacity = [], transform = [], transition = [],
           zIndex = [], project_link = True, project_title = Some ''Portfolio''\<rparr>]"
    by (simp add: example_page_def)
  obtain q where q: "domContentLoaded example_page = Done q"
    and ql: "\<forall>i. listening (CardLink i) ''click'' q \<longleftrightarrow>
               listening (CardLink i) ''click'' example_page \<or>
               (i < length (revealElements example_page) \<and>
                project_card (revealElements example_page ! i) \<and>
                project_link (revealElements example_page ! i))"
    using b C7_guards [of example_page 0] by blast
  have q0: "\<not> listening (CardLink 0) ''click'' q"
    using ql [rule_format, of 0] by (simp add: c els)
  have q1: "listening (CardLink 1) ''click'' q"
    using ql [rule_format, of 1] by (simp add: c els)
  show ?thesis
    using a b c [of 0] q q0 q1 C7_guards [of no_toggle_page 0] C7_guards [of example_page 0]
    by blast
qed

end
